theory Spec2Isabelle
  imports Complex_Main "HOL-Library.Multiset"
begin

section \<open>JavaScript numbers\<close>

text \<open>
  The benchmark engine of \<^verbatim>\<open>src/extension.ts\<close> computes with JavaScript numbers.
  Clock readings (\<^verbatim>\<open>Date.now()\<close>) and latencies are integers; quotients are modelled
  as exact rationals, and the two places where the divisor is not guarded keep the
  non-finite results of JavaScript division: \<^verbatim>\<open>0/0\<close> is \<^verbatim>\<open>NaN\<close>, \<^verbatim>\<open>x/0\<close> is an
  infinity. Rounding of doubles is not modelled.
\<close>

datatype number = Num rat | NaN | PosInfinity | NegInfinity

definition js_div :: "rat \<Rightarrow> rat \<Rightarrow> number" where
  "js_div a b =
     (if b = 0 then (if a = 0 then NaN else if 0 < a then PosInfinity else NegInfinity)
      else Num (a / b))"

definition js_times :: "number \<Rightarrow> rat \<Rightarrow> number" where
  "js_times x c =
     (case x of
        Num r \<Rightarrow> Num (r * c)
      | NaN \<Rightarrow> NaN
      | PosInfinity \<Rightarrow> (if c = 0 then NaN else if 0 < c then PosInfinity else NegInfinity)
      | NegInfinity \<Rightarrow> (if c = 0 then NaN else if 0 < c then NegInfinity else PosInfinity))"

text \<open>\<^verbatim>\<open>Math.min(c, x)\<close> for a finite \<open>c\<close>.\<close>

definition js_min :: "rat \<Rightarrow> number \<Rightarrow> number" where
  "js_min c x =
     (case x of
        Num r \<Rightarrow> Num (min c r)
      | NaN \<Rightarrow> NaN
      | PosInfinity \<Rightarrow> Num c
      | NegInfinity \<Rightarrow> NegInfinity)"

text \<open>Reading an array element: \<^verbatim>\<open>undefined\<close> (here \<open>None\<close>) outside the array.\<close>

definition js_index :: "int list \<Rightarrow> int \<Rightarrow> int option" where
  "js_index xs i = (if 0 \<le> i \<and> i < int (length xs) then Some (xs ! nat i) else None)"

section \<open>Data model\<close>

text \<open>
  The options of a run. The field \<^verbatim>\<open>method\<close> of the source is \<open>method_opt\<close> here.
\<close>

record BenchmarkOptions =
  url :: string
  method_opt :: string
  duration :: int
  connections :: nat
  headers :: "(string \<times> string) list option"
  body :: "string option"

text \<open>
  The result record of the source; the three fields whose names it shares with the
  options carry the suffix \<open>_res\<close>. \<open>duration_res\<close> is the measured
  \<^verbatim>\<open>actualDuration\<close>.
\<close>

record BenchmarkResult =
  url_res :: string
  method_res :: string
  timestamp :: int
  duration_res :: rat
  totalRequests :: nat
  successfulRequests :: nat
  failedRequests :: nat
  requestsPerSecond :: number
  avgLatency :: rat
  minLatency :: int
  maxLatency :: int
  p50 :: "int option"
  p95 :: "int option"
  p99 :: "int option"

text \<open>
  What rejects the promise: the exception of \<^verbatim>\<open>new URL\<close> on a string that is not a URL,
  or an exception that \<^verbatim>\<open>http.request\<close> throws while the promise body runs (for a
  method, a header or a path that it does not accept).
\<close>

datatype error = InvalidURL | RequestError

text \<open>
  A request that can still deliver a callback: the closure of one \<^verbatim>\<open>makeRequest\<close> call.
  \<open>destroyed\<close> is set by \<^verbatim>\<open>req.destroy()\<close>.
\<close>

record request =
  reqId :: nat
  reqStart :: int
  timeout :: nat
  destroyed :: bool

text \<open>
  The variables of the closure of \<^verbatim>\<open>runHttpBenchmark\<close>, together with what its
  environment holds: the number of clock readings taken so far, the requests that can
  still deliver a callback, the number of requests issued, the values passed to
  \<^verbatim>\<open>onProgress\<close>, and the state of the returned promise (\<open>None\<close> while pending).
\<close>

record bench =
  latencies :: "int list"
  successCount :: nat
  failCount :: nat
  startTime :: int
  endTime :: int
  activeConnections :: int
  clockReads :: nat
  inflight :: "request list"
  issued :: nat
  progressLog :: "number list"
  promise :: "(error + BenchmarkResult) option"

section \<open>The clock and the promise\<close>

text \<open>
  The \<open>n\<close>-th call of \<^verbatim>\<open>Date.now()\<close> returns \<open>clk n\<close>; \<open>now\<close> reads the
  clock and \<open>tick\<close> counts the reading. \<^verbatim>\<open>Date.now()\<close> is the wall clock: nothing in
  the definitions assumes that its readings never decrease.
\<close>

definition now :: "(nat \<Rightarrow> int) \<Rightarrow> bench \<Rightarrow> int" where
  "now clk s = clk (clockReads s)"

definition tick :: "bench \<Rightarrow> bench" where
  "tick s = s\<lparr>clockReads := Suc (clockReads s)\<rparr>"

text \<open>Settling a promise that is already settled does nothing.\<close>

definition resolve :: "(error + BenchmarkResult) option \<Rightarrow> BenchmarkResult \<Rightarrow> (error + BenchmarkResult) option" where
  "resolve p r = (case p of None \<Rightarrow> Some (Inr r) | Some x \<Rightarrow> Some x)"

definition reject :: "(error + BenchmarkResult) option \<Rightarrow> error \<Rightarrow> (error + BenchmarkResult) option" where
  "reject p e = (case p of None \<Rightarrow> Some (Inl e) | Some x \<Rightarrow> Some x)"

section \<open>The statistics finalizer\<close>

definition percentile :: "int list \<Rightarrow> rat \<Rightarrow> int option" where
  "percentile lats p =
     (if length lats = 0 then Some 0
      else (let index = \<lceil>of_nat (length lats) * p\<rceil> - 1
            in js_index lats (max 0 index)))"

definition finalize :: "(nat \<Rightarrow> int) \<Rightarrow> BenchmarkOptions \<Rightarrow> bench \<Rightarrow> bench" where
  "finalize clk opts s =
     (let actualDuration = of_int (now clk s - startTime s) / 1000;
          s1 = tick s;
          lats = sort (latencies s1);
          s2 = s1\<lparr>latencies := lats\<rparr>;
          stamp = now clk s2;
          s3 = tick s2;
          r = \<lparr> url_res = url opts,
                method_res = method_opt opts,
                timestamp = stamp,
                duration_res = actualDuration,
                totalRequests = successCount s3 + failCount s3,
                successfulRequests = successCount s3,
                failedRequests = failCount s3,
                requestsPerSecond = js_div (of_nat (successCount s3 + failCount s3)) actualDuration,
                avgLatency = (if length lats > 0
                              then of_int (foldl (+) 0 lats) / of_nat (length lats) else 0),
                minLatency = (if length lats > 0 then lats ! 0 else 0),
                maxLatency = (if length lats > 0 then lats ! (length lats - 1) else 0),
                p50 = percentile lats (1 / 2),
                p95 = percentile lats (95 / 100),
                p99 = percentile lats (99 / 100) \<rparr>
      in s3\<lparr>promise := resolve (promise s3) r\<rparr>)"

section \<open>Issuing requests\<close>

text \<open>
  \<open>requestThrows\<close> stands for the checks of \<^verbatim>\<open>http.request\<close> of the platform, which
  throws on request options that it does not accept; the options of every request of a
  run are the same. \<open>makeRequest\<close> gives the state in which a call leaves, by return or
  by that exception, and \<open>makeRequestThrows\<close> tells which of the two it is. A request
  that was not created delivers no callback.
\<close>

definition makeRequest ::
  "(BenchmarkOptions \<Rightarrow> bool) \<Rightarrow> (nat \<Rightarrow> int) \<Rightarrow> BenchmarkOptions \<Rightarrow> bench \<Rightarrow> bench" where
  "makeRequest requestThrows clk opts s =
     (let t = now clk s; s1 = tick s in
      if t \<ge> endTime s1 then
        (if activeConnections s1 = 0 then finalize clk opts s1 else s1)
      else
        (let s2 = s1\<lparr>activeConnections := activeConnections s1 + 1\<rparr>;
             start = now clk s2;
             s3 = tick s2
         in if requestThrows opts then s3
            else s3\<lparr>inflight := inflight s3 @
                        [\<lparr>reqId = issued s3, reqStart = start, timeout = 30000, destroyed = False\<rparr>],
                      issued := Suc (issued s3)\<rparr>))"

definition makeRequestThrows ::
  "(BenchmarkOptions \<Rightarrow> bool) \<Rightarrow> (nat \<Rightarrow> int) \<Rightarrow> BenchmarkOptions \<Rightarrow> bench \<Rightarrow> bool" where
  "makeRequestThrows requestThrows clk opts s \<longleftrightarrow> now clk s < endTime s \<and> requestThrows opts"

text \<open>The test \<^verbatim>\<open>res.statusCode && res.statusCode >= 200 && res.statusCode < 400\<close>.\<close>

definition okStatus :: "int option \<Rightarrow> bool" where
  "okStatus st = (case st of None \<Rightarrow> False | Some c \<Rightarrow> c \<noteq> 0 \<and> 200 \<le> c \<and> c < 400)"

text \<open>The value handed to \<^verbatim>\<open>onProgress\<close> when the clock shows \<open>t\<close>.\<close>

definition progressValue :: "BenchmarkOptions \<Rightarrow> int \<Rightarrow> int \<Rightarrow> number" where
  "progressValue opts start t =
     js_min 100 (js_times (js_div (of_int (t - start)) (of_int (duration opts * 1000))) 100)"

text \<open>
  The three callbacks of a request: \<^verbatim>\<open>'end'\<close> of the response, \<^verbatim>\<open>'error'\<close> and
  \<^verbatim>\<open>'timeout'\<close>. An exception of \<open>makeRequest\<close> inside a callback is not caught by
  anything in the source; the state stays as the call left it.
\<close>

definition onEnd ::
  "(BenchmarkOptions \<Rightarrow> bool) \<Rightarrow> (nat \<Rightarrow> int) \<Rightarrow> BenchmarkOptions \<Rightarrow> request \<Rightarrow> int option
     \<Rightarrow> bench \<Rightarrow> bench" where
  "onEnd requestThrows clk opts r statusCode s =
     (let latency = now clk s - reqStart r;
          s1 = tick s;
          s2 = s1\<lparr>latencies := latencies s1 @ [latency]\<rparr>;
          s3 = (if okStatus statusCode then s2\<lparr>successCount := Suc (successCount s2)\<rparr>
                else s2\<lparr>failCount := Suc (failCount s2)\<rparr>);
          s4 = s3\<lparr>activeConnections := activeConnections s3 - 1\<rparr>;
          v = progressValue opts (startTime s4) (now clk s4);
          s5 = (tick s4)\<lparr>progressLog := progressLog s4 @ [v]\<rparr>
      in makeRequest requestThrows clk opts s5)"

definition onError ::
  "(BenchmarkOptions \<Rightarrow> bool) \<Rightarrow> (nat \<Rightarrow> int) \<Rightarrow> BenchmarkOptions \<Rightarrow> bench \<Rightarrow> bench" where
  "onError requestThrows clk opts s =
     makeRequest requestThrows clk opts
       (s\<lparr>failCount := Suc (failCount s), activeConnections := activeConnections s - 1\<rparr>)"

text \<open>\<^verbatim>\<open>req.destroy()\<close> on the request \<open>i\<close>.\<close>

definition destroyReq :: "nat \<Rightarrow> bench \<Rightarrow> bench" where
  "destroyReq i s =
     s\<lparr>inflight := map (\<lambda>q. if reqId q = i then q\<lparr>destroyed := True\<rparr> else q) (inflight s)\<rparr>"

definition onTimeout ::
  "(BenchmarkOptions \<Rightarrow> bool) \<Rightarrow> (nat \<Rightarrow> int) \<Rightarrow> BenchmarkOptions \<Rightarrow> nat \<Rightarrow> bench \<Rightarrow> bench" where
  "onTimeout requestThrows clk opts i s =
     makeRequest requestThrows clk opts
       (destroyReq i
          (s\<lparr>failCount := Suc (failCount s), activeConnections := activeConnections s - 1\<rparr>))"

section \<open>The environment: callbacks delivered to the engine\<close>

text \<open>
  The network delivers callbacks of the requests it knows. The end of a response and an
  error are the last callback of a request. A timeout is not: the handler destroys the
  request, and the platform then emits \<^verbatim>\<open>'error'\<close> on the destroyed request, so the error
  handler runs for it as well, at some later point. A destroyed request delivers neither
  a response nor a second timeout. An event for a request that is not known, or one that
  a destroyed request cannot deliver, leaves the state as it is.
\<close>

datatype event = End nat "int option" | Error nat | Timeout nat

fun target :: "event \<Rightarrow> nat" where
  "target (End i st) = i"
| "target (Error i) = i"
| "target (Timeout i) = i"

fun untimed :: "event \<Rightarrow> bool" where
  "untimed (End i st) = False"
| "untimed (Error i) = True"
| "untimed (Timeout i) = True"


definition lookupReq :: "nat \<Rightarrow> request list \<Rightarrow> request option" where
  "lookupReq i rs = find (\<lambda>q. reqId q = i) rs"

definition dropReq :: "nat \<Rightarrow> bench \<Rightarrow> bench" where
  "dropReq i s = s\<lparr>inflight := filter (\<lambda>q. reqId q \<noteq> i) (inflight s)\<rparr>"

definition deliver ::
  "(BenchmarkOptions \<Rightarrow> bool) \<Rightarrow> (nat \<Rightarrow> int) \<Rightarrow> BenchmarkOptions \<Rightarrow> bench \<Rightarrow> event \<Rightarrow> bench" where
  "deliver requestThrows clk opts s ev =
     (case lookupReq (target ev) (inflight s) of
        None \<Rightarrow> s
      | Some r \<Rightarrow>
          (case ev of
             End i st \<Rightarrow>
               if destroyed r then s else onEnd requestThrows clk opts r st (dropReq i s)
           | Error i \<Rightarrow> onError requestThrows clk opts (dropReq i s)
           | Timeout i \<Rightarrow>
               if destroyed r then s else onTimeout requestThrows clk opts i s))"

text \<open>Whether the event is a callback that the state can receive.\<close>

definition delivered :: "bench \<Rightarrow> event \<Rightarrow> bool" where
  "delivered s ev =
     (case lookupReq (target ev) (inflight s) of
        None \<Rightarrow> False
      | Some r \<Rightarrow> (case ev of Error i \<Rightarrow> True | End i st \<Rightarrow> \<not> destroyed r | Timeout i \<Rightarrow> \<not> destroyed r))"

section \<open>Starting a run\<close>

text \<open>
  The loop \<^verbatim>\<open>for (let i = 0; i < options.connections; i++) makeRequest()\<close> of the promise
  body. An exception of \<open>makeRequest\<close> ends the body and rejects the promise, unless it
  is settled already.
\<close>

primrec startConnections ::
  "(BenchmarkOptions \<Rightarrow> bool) \<Rightarrow> (nat \<Rightarrow> int) \<Rightarrow> BenchmarkOptions \<Rightarrow> nat \<Rightarrow> bench \<Rightarrow> bench" where
  "startConnections requestThrows clk opts 0 s = s"
| "startConnections requestThrows clk opts (Suc n) s =
     (if makeRequestThrows requestThrows clk opts s
      then (makeRequest requestThrows clk opts s)
             \<lparr>promise := reject (promise (makeRequest requestThrows clk opts s)) RequestError\<rparr>
      else startConnections requestThrows clk opts n (makeRequest requestThrows clk opts s))"

definition initial :: "(nat \<Rightarrow> int) \<Rightarrow> BenchmarkOptions \<Rightarrow> bench" where
  "initial clk opts =
     \<lparr> latencies = [], successCount = 0, failCount = 0,
       startTime = clk 0, endTime = clk 0 + duration opts * 1000,
       activeConnections = 0, clockReads = 1, inflight = [], issued = 0,
       progressLog = [], promise = None \<rparr>"

text \<open>
  The body of the promise. \<open>validURL\<close> stands for the constructor \<^verbatim>\<open>new URL\<close> of the
  platform, which throws on a string that is not a URL.
\<close>

definition runHttpBenchmark ::
  "(string \<Rightarrow> bool) \<Rightarrow> (BenchmarkOptions \<Rightarrow> bool) \<Rightarrow> (nat \<Rightarrow> int) \<Rightarrow> BenchmarkOptions \<Rightarrow> bench" where
  "runHttpBenchmark validURL requestThrows clk opts =
     (let s0 = initial clk opts in
      if \<not> validURL (url opts) then s0\<lparr>promise := reject (promise s0) InvalidURL\<rparr>
      else startConnections requestThrows clk opts (connections opts) s0)"

text \<open>A run: the start, followed by the callbacks the environment delivers.\<close>

definition run ::
  "(string \<Rightarrow> bool) \<Rightarrow> (BenchmarkOptions \<Rightarrow> bool) \<Rightarrow> (nat \<Rightarrow> int) \<Rightarrow> BenchmarkOptions
     \<Rightarrow> event list \<Rightarrow> bench" where
  "run validURL requestThrows clk opts evs =
     foldl (deliver requestThrows clk opts) (runHttpBenchmark validURL requestThrows clk opts) evs"

section \<open>Observations on a sequence of callbacks\<close>



text \<open>
  The timed sample of a callback: the latency that the end of a response measures, and
  nothing for an error, a timeout or an event that is not delivered.
\<close>

fun sample :: "(nat \<Rightarrow> int) \<Rightarrow> bench \<Rightarrow> event \<Rightarrow> int list" where
  "sample clk s (End i st) =
     (case lookupReq i (inflight s) of
        None \<Rightarrow> []
      | Some r \<Rightarrow> if destroyed r then [] else [clk (clockReads s) - reqStart r])"
| "sample clk s (Error i) = []"
| "sample clk s (Timeout i) = []"

text \<open>The timed samples of the callbacks delivered while the promise was pending.\<close>

fun timedBeforeResolution ::
  "(BenchmarkOptions \<Rightarrow> bool) \<Rightarrow> (nat \<Rightarrow> int) \<Rightarrow> BenchmarkOptions \<Rightarrow> bench \<Rightarrow> event list \<Rightarrow> int list" where
  "timedBeforeResolution thr clk opts s [] = []"
| "timedBeforeResolution thr clk opts s (e # es) =
     (if promise s \<noteq> None then []
      else sample clk s e @ timedBeforeResolution thr clk opts (deliver thr clk opts s e) es)"

text \<open>
  The callbacks that report a failure: an error, a timeout, and the end of a response
  whose status code is outside [200, 400).
\<close>

fun failure :: "event \<Rightarrow> bool" where
  "failure (End i st) = (\<not> okStatus st)"
| "failure (Error i) = True"
| "failure (Timeout i) = True"

text \<open>The number of failures delivered while the promise was pending.\<close>

fun failuresBeforeResolution ::
  "(BenchmarkOptions \<Rightarrow> bool) \<Rightarrow> (nat \<Rightarrow> int) \<Rightarrow> BenchmarkOptions \<Rightarrow> bench \<Rightarrow> event list \<Rightarrow> nat" where
  "failuresBeforeResolution thr clk opts s [] = 0"
| "failuresBeforeResolution thr clk opts s (e # es) =
     (if promise s \<noteq> None then 0
      else (if failure e \<and> delivered s e then 1 else 0)
           + failuresBeforeResolution thr clk opts (deliver thr clk opts s e) es)"

section \<open>Invariants of a run\<close>

text \<open>The result of a promise that was resolved.\<close>

definition result :: "bench \<Rightarrow> BenchmarkResult option" where
  "result s = (case promise s of Some (Inr r) \<Rightarrow> Some r | _ \<Rightarrow> None)"

text \<open>The latency statistics that \<open>finalize\<close> computes from the samples \<open>ls\<close>.\<close>

definition statsOf :: "BenchmarkResult \<Rightarrow> int list \<Rightarrow> bool" where
  "statsOf r ls \<longleftrightarrow>
     avgLatency r = (if ls = [] then 0 else of_int (sum_list ls) / of_nat (length ls)) \<and>
     minLatency r = (if ls = [] then 0 else hd (sort ls)) \<and>
     maxLatency r = (if ls = [] then 0 else last (sort ls)) \<and>
     p50 r = percentile (sort ls) (1 / 2) \<and>
     p95 r = percentile (sort ls) (95 / 100) \<and>
     p99 r = percentile (sort ls) (99 / 100)"






text \<open>
  The state in which the handler of a delivered callback calls \<open>makeRequest\<close>.
\<close>

definition pre :: "(nat \<Rightarrow> int) \<Rightarrow> BenchmarkOptions \<Rightarrow> bench \<Rightarrow> event \<Rightarrow> bench" where
  "pre clk opts s ev =
     (case ev of
        End i st \<Rightarrow>
          s\<lparr>latencies := latencies s @ sample clk s ev,
            successCount := (if okStatus st then Suc (successCount s) else successCount s),
            failCount := (if okStatus st then failCount s else Suc (failCount s)),
            activeConnections := activeConnections s - 1,
            clockReads := Suc (Suc (clockReads s)),
            inflight := filter (\<lambda>q. reqId q \<noteq> i) (inflight s),
            progressLog := progressLog s @
              [progressValue opts (startTime s) (clk (Suc (clockReads s)))]\<rparr>
      | Error i \<Rightarrow>
          s\<lparr>failCount := Suc (failCount s),
            activeConnections := activeConnections s - 1,
            inflight := filter (\<lambda>q. reqId q \<noteq> i) (inflight s)\<rparr>
      | Timeout i \<Rightarrow>
          s\<lparr>failCount := Suc (failCount s),
            activeConnections := activeConnections s - 1,
            inflight := map (\<lambda>q. if reqId q = i then q\<lparr>destroyed := True\<rparr> else q) (inflight s)\<rparr>)"


section \<open>Concrete runs\<close>

text \<open>
  Inputs on which the definitions are evaluated: a parser that accepts every string
  and one that accepts none, an \<^verbatim>\<open>http.request\<close> that never throws and one that always
  does, a clock that advances by 100 ms with every reading, a clock that stands still,
  and a clock given by a table of readings (the last entry repeats).
\<close>

definition acceptAll :: "string \<Rightarrow> bool" where
  "acceptAll u = True"


definition neverThrows :: "BenchmarkOptions \<Rightarrow> bool" where
  "neverThrows opts = False"


definition stepClock :: "nat \<Rightarrow> int" where
  "stepClock n = 100 * int n"

definition frozenClock :: "nat \<Rightarrow> int" where
  "frozenClock n = 0"

definition tableClock :: "int list \<Rightarrow> nat \<Rightarrow> int" where
  "tableClock ts n = (if n < length ts then ts ! n else last ts)"

definition sampleOptions :: BenchmarkOptions where
  "sampleOptions = \<lparr> url = ''http://localhost/'', method_opt = ''GET'', duration = 1,
     connections = 1, headers = None, body = None \<rparr>"

text \<open>One good response, one transport error, one response with status 503.\<close>

definition sampleEvents :: "event list" where
  "sampleEvents = [End 0 (Some 200), Error 1, End 2 (Some 503)]"


text \<open>Ten good responses with latencies of 1, 2, ..., 10 ms, the last one ending the run.\<close>

definition ladderClock :: "nat \<Rightarrow> int" where
  "ladderClock = tableClock
     [0, 0, 0, 1, 1, 1, 1, 3, 3, 3, 3, 6, 6, 6, 6, 10, 10, 10, 10, 15, 15, 15, 15,
      21, 21, 21, 21, 28, 28, 28, 28, 36, 36, 36, 36, 45, 45, 45, 45, 55, 55, 1000, 1000, 1000]"

definition ladderEvents :: "event list" where
  "ladderEvents = [End 0 (Some 200), End 1 (Some 200), End 2 (Some 200), End 3 (Some 200),
     End 4 (Some 200), End 5 (Some 200), End 6 (Some 200), End 7 (Some 200),
     End 8 (Some 200), End 9 (Some 200)]"

definition ladderResult :: BenchmarkResult where
  "ladderResult = \<lparr> url_res = ''http://localhost/'', method_res = ''GET'', timestamp = 1000,
     duration_res = 1, totalRequests = 10, successfulRequests = 10, failedRequests = 0,
     requestsPerSecond = Num 10, avgLatency = 11 / 2, minLatency = 1, maxLatency = 10,
     p50 = Some 5, p95 = Some 10, p99 = Some 10 \<rparr>"

text \<open>A run of zero seconds, and a run with no connection.\<close>

definition zeroDurationOptions :: BenchmarkOptions where
  "zeroDurationOptions = \<lparr> url = ''http://localhost/'', method_opt = ''GET'', duration = 0,
     connections = 1, headers = None, body = None \<rparr>"

definition noConnectionOptions :: BenchmarkOptions where
  "noConnectionOptions = \<lparr> url = ''http://localhost/'', method_opt = ''GET'', duration = 1,
     connections = 0, headers = None, body = None \<rparr>"

text \<open>
  A run of one minute on one connection. The first request is answered after 29.9 s;
  the second request runs into the timeout of 30 s, 100 ms before the deadline, and the
  error of its destruction follows; the request that the handler of the timeout issued
  is answered at the deadline, while the request that the handler of the error issued
  is in flight.
\<close>

definition minuteOptions :: BenchmarkOptions where
  "minuteOptions = \<lparr> url = ''http://localhost/'', method_opt = ''GET'', duration = 60,
     connections = 1, headers = None, body = None \<rparr>"

definition minuteClock :: "nat \<Rightarrow> int" where
  "minuteClock = tableClock
     [0, 0, 0, 29900, 29900, 29900, 29900, 59900, 59900, 59900, 59900,
      60000, 60000, 60000, 60010, 60010, 60050]"

definition timeoutEvents :: "event list" where
  "timeoutEvents = [End 0 (Some 200), Timeout 1, Error 1, End 2 (Some 200)]"

definition timeoutResult :: BenchmarkResult where
  "timeoutResult = \<lparr> url_res = ''http://localhost/'', method_res = ''GET'', timestamp = 60010,
     duration_res = 6001 / 100, totalRequests = 4, successfulRequests = 2, failedRequests = 2,
     requestsPerSecond = Num (400 / 6001), avgLatency = 15000, minLatency = 100,
     maxLatency = 29900, p50 = Some 100, p95 = Some 29900, p99 = Some 29900 \<rparr>"

text \<open>
  A wall clock that is set back by 10 ms between the test of the deadline and the
  reading of \<open>finalize\<close>.
\<close>

definition backClock :: "nat \<Rightarrow> int" where
  "backClock = tableClock [0, 0, 0, 1000, 1000, 1000, 990, 990]"

section \<open>Auxiliary facts\<close>

subsection \<open>Lists, sums and the clock\<close>

lemma mono_clock: "(\<forall>n. clk n \<le> clk (Suc n)) \<Longrightarrow> i \<le> j \<Longrightarrow> (clk i :: int) \<le> clk j"
  by (rule lift_Suc_mono_le) auto

lemma foldl_plus: "foldl (+) a xs = a + sum_list (xs :: int list)"
  by (induction xs arbitrary: a) auto

lemma sum_list_sort: "sum_list (sort xs) = sum_list (xs :: int list)"
proof -
  have "sum_mset (mset (sort xs)) = sum_mset (mset xs)" by simp
  then show ?thesis by (simp only: sum_mset_sum_list)
qed

lemma sort_Nil_iff: "sort xs = [] \<longleftrightarrow> (xs :: int list) = []"
  by (metis length_sort length_0_conv)

lemma lookupReq_Some:
  "lookupReq i rs = Some r \<Longrightarrow> r \<in> set rs \<and> reqId r = i"
  unfolding lookupReq_def by (induction rs) (auto split: if_splits)

lemma lookupReq_None:
  "lookupReq i rs = None \<longleftrightarrow> i \<notin> reqId ` set rs"
  unfolding lookupReq_def by (induction rs) auto







subsection \<open>The finalizer\<close>

lemma finalize_fields:
  "successCount (finalize clk opts s) = successCount s"
  "failCount (finalize clk opts s) = failCount s"
  "inflight (finalize clk opts s) = inflight s"
  "issued (finalize clk opts s) = issued s"
  "activeConnections (finalize clk opts s) = activeConnections s"
  "startTime (finalize clk opts s) = startTime s"
  "endTime (finalize clk opts s) = endTime s"
  "progressLog (finalize clk opts s) = progressLog s"
  "clockReads (finalize clk opts s) = Suc (Suc (clockReads s))"
  "latencies (finalize clk opts s) = sort (latencies s)"
  by (simp_all add: finalize_def Let_def tick_def)

lemma finalize_settled: "promise s = Some x \<Longrightarrow> promise (finalize clk opts s) = Some x"
  by (simp add: finalize_def Let_def tick_def resolve_def)

lemma finalize_resolves:
  "promise s = None \<Longrightarrow> \<exists>r. promise (finalize clk opts s) = Some (Inr r)"
  by (simp add: finalize_def Let_def tick_def resolve_def)

text \<open>What \<open>finalize\<close> puts into the result when it resolves the promise.\<close>

lemma finalize_result:
  assumes "promise s = None" "promise (finalize clk opts s) = Some (Inr r)"
  shows "totalRequests r = successCount s + failCount s"
    and "successfulRequests r = successCount s"
    and "failedRequests r = failCount s"
    and "duration_res r = of_int (clk (clockReads s) - startTime s) / 1000"
    and "requestsPerSecond r = js_div (of_nat (totalRequests r)) (duration_res r)"
    and "statsOf r (latencies s)"
proof -
  let ?L = "sort (latencies s)"
  define R where "R = \<lparr> url_res = url opts, method_res = method_opt opts,
                timestamp = clk (Suc (clockReads s)),
                duration_res = of_int (clk (clockReads s) - startTime s) / 1000,
                totalRequests = successCount s + failCount s,
                successfulRequests = successCount s,
                failedRequests = failCount s,
                requestsPerSecond = js_div (of_nat (successCount s + failCount s))
                                     (of_int (clk (clockReads s) - startTime s) / 1000),
                avgLatency = (if length ?L > 0
                              then of_int (foldl (+) 0 ?L) / of_nat (length ?L) else 0),
                minLatency = (if length ?L > 0 then ?L ! 0 else 0),
                maxLatency = (if length ?L > 0 then ?L ! (length ?L - 1) else 0),
                p50 = percentile ?L (1 / 2),
                p95 = percentile ?L (95 / 100),
                p99 = percentile ?L (99 / 100) \<rparr>"
  have "promise (finalize clk opts s) = Some (Inr R)"
    using assms(1) unfolding R_def
    by (simp add: finalize_def Let_def tick_def resolve_def now_def sort_Nil_iff)
  then have r: "r = R" using assms(2) by simp
  show "totalRequests r = successCount s + failCount s"
    "successfulRequests r = successCount s" "failedRequests r = failCount s"
    "duration_res r = of_int (clk (clockReads s) - startTime s) / 1000"
    "requestsPerSecond r = js_div (of_nat (totalRequests r)) (duration_res r)"
    by (simp_all add: r R_def)
  have avg: "avgLatency r = (if latencies s = [] then 0
      else of_int (sum_list (latencies s)) / of_nat (length (latencies s)))"
    by (simp add: r R_def foldl_plus sum_list_sort sort_Nil_iff)
  have mn: "minLatency r = (if latencies s = [] then 0 else hd ?L)"
    by (simp add: r R_def hd_conv_nth sort_Nil_iff)
  have mx: "maxLatency r = (if latencies s = [] then 0 else last ?L)"
    by (simp add: r R_def last_conv_nth sort_Nil_iff)
  have ps: "p50 r = percentile ?L (1 / 2)" "p95 r = percentile ?L (95 / 100)"
    "p99 r = percentile ?L (99 / 100)"
    by (simp_all add: r R_def)
  show "statsOf r (latencies s)"
    unfolding statsOf_def using avg mn mx ps by simp
qed

subsection \<open>One call of makeRequest\<close>

lemma makeRequest_late:
  assumes "endTime s \<le> clk (clockReads s)"
  shows "makeRequest thr clk opts s =
     (if activeConnections s = 0 then finalize clk opts (tick s) else tick s)"
  using assms by (simp add: makeRequest_def Let_def tick_def now_def)


lemma makeRequestThrows_iff:
  "makeRequestThrows thr clk opts s \<longleftrightarrow> \<not> endTime s \<le> clk (clockReads s) \<and> thr opts"
  by (auto simp: makeRequestThrows_def now_def)

lemma makeRequest_fields:
  "successCount (makeRequest thr clk opts s) = successCount s"
  "failCount (makeRequest thr clk opts s) = failCount s"
  "startTime (makeRequest thr clk opts s) = startTime s"
  "endTime (makeRequest thr clk opts s) = endTime s"
  "progressLog (makeRequest thr clk opts s) = progressLog s"
  "mset (latencies (makeRequest thr clk opts s)) = mset (latencies s)"
  "length (latencies (makeRequest thr clk opts s)) = length (latencies s)"
  by (simp_all add: makeRequest_def Let_def tick_def finalize_fields)


lemma makeRequest_settled:
  "promise s = Some x \<Longrightarrow> promise (makeRequest thr clk opts s) = Some x"
  by (simp add: makeRequest_def Let_def tick_def finalize_settled)

lemma makeRequest_promise:
  "promise (makeRequest thr clk opts s) = promise s \<or>
   (endTime s \<le> clk (clockReads s) \<and> activeConnections s = 0 \<and>
    makeRequest thr clk opts s = finalize clk opts (tick s))"
  by (simp add: makeRequest_def Let_def tick_def now_def)


text \<open>A call that leaves the promise pending has not sorted the latencies.\<close>

lemma makeRequest_pending:
  assumes "promise (makeRequest thr clk opts s) = None"
  shows "latencies (makeRequest thr clk opts s) = latencies s"
    and "promise s = None"
proof -
  show p: "promise s = None"
  proof (cases "promise s")
    case (Some x)
    then show ?thesis using makeRequest_settled [of s x thr clk opts] assms by simp
  qed simp
  have "promise (tick s) = None" using p by (simp add: tick_def)
  then have "promise (finalize clk opts (tick s)) \<noteq> None"
    using finalize_resolves [of "tick s" clk opts] by auto
  then have "makeRequest thr clk opts s \<noteq> finalize clk opts (tick s)"
    using assms by auto
  then show "latencies (makeRequest thr clk opts s) = latencies s"
    by (auto simp: makeRequest_def Let_def tick_def now_def)
qed

text \<open>A call that resolves the promise: what the result holds.\<close>

lemma makeRequest_resolves:
  assumes "promise s = None" "promise (makeRequest thr clk opts s) = Some (Inr r)"
  shows "endTime s \<le> clk (clockReads s)" and "activeConnections s = 0"
    and "totalRequests r = successCount s + failCount s"
    and "successfulRequests r = successCount s"
    and "failedRequests r = failCount s"
    and "duration_res r = of_int (clk (Suc (clockReads s)) - startTime s) / 1000"
    and "requestsPerSecond r = js_div (of_nat (totalRequests r)) (duration_res r)"
    and "statsOf r (latencies s)"
proof -
  have fin: "endTime s \<le> clk (clockReads s) \<and> activeConnections s = 0 \<and>
      makeRequest thr clk opts s = finalize clk opts (tick s)"
    using makeRequest_promise [of thr clk opts s] assms by auto
  then show "endTime s \<le> clk (clockReads s)" "activeConnections s = 0" by simp_all
  have t: "promise (tick s) = None" using assms(1) by (simp add: tick_def)
  have f: "promise (finalize clk opts (tick s)) = Some (Inr r)" using fin assms(2) by simp
  show "totalRequests r = successCount s + failCount s"
    "successfulRequests r = successCount s" "failedRequests r = failCount s"
    "duration_res r = of_int (clk (Suc (clockReads s)) - startTime s) / 1000"
    "requestsPerSecond r = js_div (of_nat (totalRequests r)) (duration_res r)"
    "statsOf r (latencies s)"
    using finalize_result [OF t f] by (simp_all add: tick_def)
qed

subsection \<open>Delivering one callback\<close>

lemma deliver_pre:
  "deliver thr clk opts s ev =
     (if delivered s ev then makeRequest thr clk opts (pre clk opts s ev) else s)"
proof (cases "lookupReq (target ev) (inflight s)")
  case None
  then show ?thesis by (simp add: deliver_def delivered_def)
next
  case (Some r)
  show ?thesis
  proof (cases ev)
    case (End i st)
    then have hit: "lookupReq i (inflight s) = Some r" using Some by simp
    have "onEnd thr clk opts r st (dropReq i s) = makeRequest thr clk opts (pre clk opts s ev)"
      if "\<not> destroyed r"
      using that hit unfolding End
      by (cases s) (simp add: onEnd_def dropReq_def pre_def Let_def tick_def now_def)
    then show ?thesis using End hit by (simp add: deliver_def delivered_def)
  next
    case (Error i)
    then have hit: "lookupReq i (inflight s) = Some r" using Some by simp
    have "onError thr clk opts (dropReq i s) = makeRequest thr clk opts (pre clk opts s ev)"
      unfolding Error by (cases s) (simp add: onError_def dropReq_def pre_def)
    then show ?thesis using Error hit by (simp add: deliver_def delivered_def)
  next
    case (Timeout i)
    then have hit: "lookupReq i (inflight s) = Some r" using Some by simp
    have "onTimeout thr clk opts i s = makeRequest thr clk opts (pre clk opts s ev)"
      unfolding Timeout by (cases s) (simp add: onTimeout_def destroyReq_def pre_def)
    then show ?thesis using Timeout hit by (simp add: deliver_def delivered_def)
  qed
qed

lemma deliver_miss: "\<not> delivered s ev \<Longrightarrow> deliver thr clk opts s ev = s"
  by (simp add: deliver_pre)


lemma pre_fields:
  "promise (pre clk opts s ev) = promise s"
  "startTime (pre clk opts s ev) = startTime s"
  "endTime (pre clk opts s ev) = endTime s"
  "issued (pre clk opts s ev) = issued s"
  "activeConnections (pre clk opts s ev) = activeConnections s - 1"
  "clockReads s \<le> clockReads (pre clk opts s ev)"
  "latencies (pre clk opts s ev) = latencies s @ sample clk s ev"
  "successCount (pre clk opts s ev) + failCount (pre clk opts s ev)
     = Suc (successCount s + failCount s)"
  by (cases ev; simp add: pre_def)+

lemma sample_length:
  "delivered s ev \<Longrightarrow> length (sample clk s ev) = (if untimed ev then 0 else 1)"
  by (cases ev) (auto simp: delivered_def split: option.splits)

lemma pre_progress:
  "progressLog (pre clk opts s ev) =
     (case ev of
        End i st \<Rightarrow> progressLog s @ [progressValue opts (startTime s) (clk (Suc (clockReads s)))]
      | Error i \<Rightarrow> progressLog s
      | Timeout i \<Rightarrow> progressLog s)"
  by (cases ev) (simp_all add: pre_def)

lemma pre_failCount:
  "failCount (pre clk opts s ev) =
     (case ev of End i st \<Rightarrow> (if okStatus st then failCount s else Suc (failCount s))
      | Error i \<Rightarrow> Suc (failCount s) | Timeout i \<Rightarrow> Suc (failCount s))"
  "successCount (pre clk opts s ev) =
     (case ev of End i st \<Rightarrow> (if okStatus st then Suc (successCount s) else successCount s)
      | Error i \<Rightarrow> successCount s | Timeout i \<Rightarrow> successCount s)"
  by (cases ev; simp add: pre_def)+


subsection \<open>The invariant is kept\<close>









subsection \<open>A settled promise stays as it is\<close>

lemma deliver_settled:
  "promise s = Some x \<Longrightarrow> promise (deliver thr clk opts s ev) = Some x"
  by (simp add: deliver_pre makeRequest_settled pre_fields)

lemma foldl_deliver_settled:
  "promise s = Some x \<Longrightarrow> promise (foldl (deliver thr clk opts) s evs) = Some x"
  by (induction evs arbitrary: s) (simp_all add: deliver_settled)

lemma startConnections_settled:
  "promise s = Some x \<Longrightarrow> promise (startConnections thr clk opts n s) = Some x"
  by (induction n arbitrary: s) (simp_all add: makeRequest_settled reject_def)


subsection \<open>Counting requests\<close>



lemma startConnections_fields:
  "successCount (startConnections thr clk opts n s) = successCount s"
  "failCount (startConnections thr clk opts n s) = failCount s"
  "length (latencies (startConnections thr clk opts n s)) = length (latencies s)"
  "progressLog (startConnections thr clk opts n s) = progressLog s"
  "startTime (startConnections thr clk opts n s) = startTime s"
  "endTime (startConnections thr clk opts n s) = endTime s"
  by (induction n arbitrary: s) (simp_all add: makeRequest_fields)

lemma runHttpBenchmark_latencies: "latencies (runHttpBenchmark validURL thr clk opts) = []"
proof -
  have "length (latencies (startConnections thr clk opts (connections opts) (initial clk opts)))
      = length (latencies (initial clk opts))"
    by (rule startConnections_fields)
  then have "latencies (startConnections thr clk opts (connections opts) (initial clk opts)) = []"
    by (simp add: initial_def)
  then show ?thesis by (simp add: runHttpBenchmark_def Let_def initial_def)
qed



subsection \<open>The start of a run\<close>





subsection \<open>Every result is well formed, whatever the clock does\<close>






subsection \<open>The samples behind a result\<close>

lemma sample_miss: "\<not> delivered s ev \<Longrightarrow> sample clk s ev = []"
  by (cases ev) (auto simp: delivered_def split: option.splits)

lemma timedBeforeResolution_settled:
  "promise s \<noteq> None \<Longrightarrow> timedBeforeResolution thr clk opts s evs = []"
  by (cases evs) simp_all

lemma deliver_pending_latencies:
  assumes "promise (deliver thr clk opts s ev) = None"
  shows "latencies (deliver thr clk opts s ev) = latencies s @ sample clk s ev"
proof (cases "delivered s ev")
  case True
  then have "promise (makeRequest thr clk opts (pre clk opts s ev)) = None"
    using assms by (simp add: deliver_pre)
  then have "latencies (makeRequest thr clk opts (pre clk opts s ev)) = latencies (pre clk opts s ev)"
    by (rule makeRequest_pending)
  then show ?thesis using True by (simp add: deliver_pre pre_fields)
qed (simp add: deliver_miss sample_miss)

text \<open>The callback that resolves the promise: what the result holds.\<close>

lemma deliver_resolves:
  assumes "promise s = None" "promise (deliver thr clk opts s ev) = Some (Inr r)"
  shows "statsOf r (latencies s @ sample clk s ev)"
    and "totalRequests r = Suc (successCount s + failCount s)"
proof -
  have del: "delivered s ev"
  proof (rule ccontr)
    assume "\<not> delivered s ev"
    then show False using assms by (simp add: deliver_miss)
  qed
  have p: "promise (pre clk opts s ev) = None" using assms(1) by (simp add: pre_fields)
  have r: "promise (makeRequest thr clk opts (pre clk opts s ev)) = Some (Inr r)"
    using assms(2) del by (simp add: deliver_pre)
  show "statsOf r (latencies s @ sample clk s ev)"
    using makeRequest_resolves(8) [OF p r] by (simp add: pre_fields)
  show "totalRequests r = Suc (successCount s + failCount s)"
    using makeRequest_resolves(3) [OF p r] pre_fields(8) [of clk opts s ev] by simp
qed

lemma foldl_resolved_stats:
  "promise s = None \<Longrightarrow> promise (foldl (deliver thr clk opts) s evs) = Some (Inr r) \<Longrightarrow>
   statsOf r (latencies s @ timedBeforeResolution thr clk opts s evs)"
proof (induction evs arbitrary: s)
  case Nil
  then show ?case by simp
next
  case (Cons e es)
  let ?s' = "deliver thr clk opts s e"
  show ?case
  proof (cases "promise ?s'")
    case None
    have "statsOf r (latencies ?s' @ timedBeforeResolution thr clk opts ?s' es)"
      using Cons.IH [OF None] Cons.prems(2) by simp
    then show ?thesis
      using Cons.prems(1) deliver_pending_latencies [OF None] by simp
  next
    case (Some x)
    then have "promise (foldl (deliver thr clk opts) ?s' es) = Some x"
      by (rule foldl_deliver_settled)
    then have x: "x = Inr r" using Cons.prems(2) by simp
    have "timedBeforeResolution thr clk opts ?s' es = []"
      using Some by (simp add: timedBeforeResolution_settled)
    then show ?thesis
      using Cons.prems(1) deliver_resolves(1) [OF Cons.prems(1), of thr clk opts e r] Some x by simp
  qed
qed

text \<open>A promise that the start resolves: no request was made and nothing was counted.\<close>

lemma startConnections_resolves:
  "promise s = None \<Longrightarrow> promise (startConnections thr clk opts n s) = Some (Inr r) \<Longrightarrow>
   statsOf r (latencies s) \<and> totalRequests r = successCount s + failCount s \<and>
   successfulRequests r = successCount s \<and> failedRequests r = failCount s"
proof (induction n arbitrary: s)
  case 0
  then show ?case by simp
next
  case (Suc n)
  let ?m = "makeRequest thr clk opts s"
  show ?case
  proof (cases "promise ?m")
    case None
    have nothrow: "\<not> makeRequestThrows thr clk opts s"
    proof
      assume "makeRequestThrows thr clk opts s"
      then show False using Suc.prems(2) None by (simp add: reject_def)
    qed
    have "latencies ?m = latencies s" using None by (rule makeRequest_pending)
    then show ?thesis
      using Suc.IH [OF None] Suc.prems(2) nothrow by (simp add: makeRequest_fields)
  next
    case (Some x)
    have "promise (startConnections thr clk opts (Suc n) s) = Some x"
      using Some by (simp add: startConnections_settled reject_def)
    then have "promise ?m = Some (Inr r)" using Suc.prems(2) Some by simp
    then show ?thesis using makeRequest_resolves [OF Suc.prems(1)] by simp
  qed
qed

lemma run_stats:
  assumes "result (run validURL thr clk opts evs) = Some r"
  shows "statsOf r (timedBeforeResolution thr clk opts (runHttpBenchmark validURL thr clk opts) evs)"
proof -
  let ?s0 = "runHttpBenchmark validURL thr clk opts"
  have p: "promise (foldl (deliver thr clk opts) ?s0 evs) = Some (Inr r)"
    using assms by (auto simp: run_def result_def split: option.splits sum.splits)
  show ?thesis
  proof (cases "promise ?s0")
    case None
    then show ?thesis
      using foldl_resolved_stats [OF None p] by (simp add: runHttpBenchmark_latencies)
  next
    case (Some x)
    then have "promise (foldl (deliver thr clk opts) ?s0 evs) = Some x"
      by (rule foldl_deliver_settled)
    then have x: "promise ?s0 = Some (Inr r)" using p Some by simp
    then have valid: "validURL (url opts)"
      by (auto simp: runHttpBenchmark_def Let_def initial_def reject_def split: if_splits)
    have "promise (startConnections thr clk opts (connections opts) (initial clk opts)) = Some (Inr r)"
      using x valid by (simp add: runHttpBenchmark_def Let_def)
    moreover have "promise (initial clk opts) = None" by (simp add: initial_def)
    ultimately have "statsOf r (latencies (initial clk opts))"
      using startConnections_resolves by blast
    then show ?thesis
      using Some by (simp add: timedBeforeResolution_settled initial_def)
  qed
qed

subsection \<open>Requests that a timeout leaves behind\<close>







subsection \<open>A pending run has a request that can answer\<close>






subsection \<open>Delivering the outstanding callbacks ends the run\<close>


subsection \<open>When the promise is rejected\<close>







subsection \<open>Evaluating concrete runs\<close>

lemma ceiling_rat_numeral:
  "\<lceil>(numeral a :: rat) / numeral b\<rceil> = - ((- numeral a) div numeral b)"
proof -
  have "\<lceil>(of_int (numeral a) :: rat) / of_int (numeral b)\<rceil> = - ((- numeral a) div numeral b)"
    by (rule ceiling_divide_eq_div)
  then show ?thesis by simp
qed

lemmas engine_defs =
  run_def runHttpBenchmark_def initial_def makeRequest_def makeRequestThrows_def finalize_def
  deliver_def onEnd_def onError_def onTimeout_def dropReq_def destroyReq_def lookupReq_def
  tick_def now_def Let_def okStatus_def progressValue_def js_div_def js_times_def js_min_def
  resolve_def reject_def percentile_def js_index_def ceiling_rat_numeral

lemma stepClock_mono: "\<forall>n. stepClock n \<le> stepClock (Suc n)"
  by (simp add: stepClock_def)

lemma frozenClock_mono: "\<forall>n. frozenClock n \<le> frozenClock (Suc n)"
  by (simp add: frozenClock_def)



lemma backClock_back: "\<not> (\<forall>n. backClock n \<le> backClock (Suc n))"
proof
  assume "\<forall>n. backClock n \<le> backClock (Suc n)"
  then have "backClock 5 \<le> backClock (Suc 5)" by blast
  then show False by (simp add: backClock_def tableClock_def)
qed



lemma sample_start:
  "run acceptAll neverThrows stepClock sampleOptions [] =
   \<lparr> latencies = [], successCount = 0, failCount = 0, startTime = 0, endTime = 1000,
     activeConnections = 1, clockReads = 3,
     inflight = [\<lparr>reqId = 0, reqStart = 200, timeout = 30000, destroyed = False\<rparr>], issued = 1,
     progressLog = [], promise = None \<rparr>"
  by (simp add: engine_defs sampleOptions_def acceptAll_def neverThrows_def stepClock_def)

lemma ladder_run:
  "run acceptAll neverThrows ladderClock sampleOptions ladderEvents =
   \<lparr> latencies = [1, 2, 3, 4, 5, 6, 7, 8, 9, 10], successCount = 10, failCount = 0,
     startTime = 0, endTime = 1000,
     activeConnections = 0, clockReads = 44, inflight = [], issued = 10,
     progressLog = [Num (1 / 10), Num (3 / 10), Num (3 / 5), Num 1, Num (3 / 2), Num (21 / 10),
       Num (14 / 5), Num (18 / 5), Num (9 / 2), Num (11 / 2)],
     promise = Some (Inr ladderResult) \<rparr>"
  by (simp add: engine_defs sampleOptions_def ladderEvents_def acceptAll_def neverThrows_def
      ladderClock_def tableClock_def ladderResult_def)

lemma ladder_result:
  "result (run acceptAll neverThrows ladderClock sampleOptions ladderEvents) = Some ladderResult"
  by (simp add: ladder_run result_def)

lemma timeout_run:
  "run acceptAll neverThrows minuteClock minuteOptions timeoutEvents =
   \<lparr> latencies = [100, 29900], successCount = 2, failCount = 2, startTime = 0, endTime = 60000,
     activeConnections = 0, clockReads = 16,
     inflight = [\<lparr>reqId = 3, reqStart = 59900, timeout = 30000, destroyed = False\<rparr>],
     issued = 4, progressLog = [Num (299 / 6), Num 100], promise = Some (Inr timeoutResult) \<rparr>"
  by (simp add: engine_defs minuteOptions_def timeoutEvents_def acceptAll_def neverThrows_def
      minuteClock_def tableClock_def timeoutResult_def)

lemma timeout_result:
  "result (run acceptAll neverThrows minuteClock minuteOptions timeoutEvents) = Some timeoutResult"
  by (simp add: timeout_run result_def)

subsection \<open>Nearest-rank percentiles\<close>

lemma percentile_index_bound:
  assumes "xs \<noteq> []" "p \<le> 1"
  shows "nat (max 0 (\<lceil>of_nat (length xs) * (p :: rat)\<rceil> - 1)) < length xs"
proof -
  have "of_nat (length xs) * p \<le> (of_nat (length xs) :: rat)"
    using assms(2) by (simp add: mult_left_le)
  then have "\<lceil>of_nat (length xs) * p\<rceil> \<le> int (length xs)"
    by (simp add: ceiling_le_iff)
  moreover have "0 < length xs" using assms(1) by simp
  ultimately show ?thesis by linarith
qed

lemma percentile_in_range:
  assumes "xs \<noteq> []" "p \<le> 1"
  shows "percentile xs p = Some (xs ! nat (max 0 (\<lceil>of_nat (length xs) * p\<rceil> - 1)))"
  using percentile_index_bound [OF assms] assms(1)
  by (simp add: percentile_def js_index_def Let_def)




text \<open>
  C2. The percentile of the finalizer is 0 on no samples; on a non-empty array it reads
  the array at index \<open>max 0 (\<lceil>count * p\<rceil> - 1)\<close>, which for \<open>p \<le> 1\<close> is an index of
  the array. On the samples 10, 20, 30, 40, 100 it gives 30 for p = 0.5 and 100 for
  p = 0.95 and p = 0.99.
\<close>

theorem percentile_nearest_rank:
  "percentile [] p = Some 0 \<and>
   (xs \<noteq> [] \<longrightarrow>
      percentile xs p = js_index xs (max 0 (\<lceil>of_nat (length xs) * p\<rceil> - 1))) \<and>
   (xs \<noteq> [] \<and> p \<le> 1 \<longrightarrow>
      nat (max 0 (\<lceil>of_nat (length xs) * p\<rceil> - 1)) < length xs \<and>
      percentile xs p = Some (xs ! nat (max 0 (\<lceil>of_nat (length xs) * p\<rceil> - 1)))) \<and>
   percentile (sort [10, 20, 30, 40, 100]) (1 / 2) = Some 30 \<and>
   percentile (sort [10, 20, 30, 40, 100]) (95 / 100) = Some 100 \<and>
   percentile (sort [10, 20, 30, 40, 100]) (99 / 100) = Some 100"
proof -
  have "percentile [] p = Some 0" by (simp add: percentile_def)
  moreover have "xs \<noteq> [] \<longrightarrow>
      percentile xs p = js_index xs (max 0 (\<lceil>of_nat (length xs) * p\<rceil> - 1))"
    by (simp add: percentile_def Let_def)
  moreover have "xs \<noteq> [] \<and> p \<le> 1 \<longrightarrow>
      nat (max 0 (\<lceil>of_nat (length xs) * p\<rceil> - 1)) < length xs \<and>
      percentile xs p = Some (xs ! nat (max 0 (\<lceil>of_nat (length xs) * p\<rceil> - 1)))"
    using percentile_index_bound percentile_in_range by blast
  moreover have "percentile (sort [10, 20, 30, 40, 100]) (1 / 2) = Some 30"
    by (simp add: percentile_def js_index_def Let_def ceiling_rat_numeral)
  moreover have "percentile (sort [10, 20, 30, 40, 100]) (95 / 100) = Some 100"
    by (simp add: percentile_def js_index_def Let_def ceiling_rat_numeral)
  moreover have "percentile (sort [10, 20, 30, 40, 100]) (99 / 100) = Some 100"
    by (simp add: percentile_def js_index_def Let_def ceiling_rat_numeral)
  ultimately show ?thesis by blast
qed

theorem percentile_nearest_rank_witness:
  "[12, 15, 40] \<noteq> [] \<and> (1 / 2 :: rat) \<le> 1 \<and>
   nat (max 0 (\<lceil>of_nat (length [12, 15, 40 :: int]) * (1 / 2 :: rat)\<rceil> - 1)) = 1 \<and>
   percentile [12, 15, 40] (1 / 2) = Some 15"
  using percentile_nearest_rank [of "1 / 2" "[12, 15, 40]"]
  by (simp add: ceiling_rat_numeral js_index_def)

section \<open>The claims about completed runs\<close>



text \<open>
  C8. In the result of every completed run the average, minimum and maximum latency are
  computed from the timed samples alone, that is from the latencies that the ends of
  responses measured while the run was pending, and from nothing that an error or a
  timeout did: all three are 0 when there are no such samples, and otherwise the average
  is their sum divided by their number and the minimum and maximum are the first and the
  last element of the sorted samples. For ten timed samples with latencies 1, ..., 10 ms
  the average is 5.5, the minimum 1 and the maximum 10.
\<close>

theorem latency_statistics:
  assumes "result (run validURL thr clk opts evs) = Some r"
    and "ls = timedBeforeResolution thr clk opts (runHttpBenchmark validURL thr clk opts) evs"
  shows "avgLatency r = (if ls = [] then 0 else of_int (sum_list ls) / of_nat (length ls)) \<and>
         minLatency r = (if ls = [] then 0 else hd (sort ls)) \<and>
         maxLatency r = (if ls = [] then 0 else last (sort ls)) \<and>
         timedBeforeResolution neverThrows ladderClock sampleOptions
             (runHttpBenchmark acceptAll neverThrows ladderClock sampleOptions) ladderEvents
           = [1, 2, 3, 4, 5, 6, 7, 8, 9, 10] \<and>
         map_option avgLatency (result (run acceptAll neverThrows ladderClock sampleOptions ladderEvents))
           = Some (11 / 2) \<and>
         map_option minLatency (result (run acceptAll neverThrows ladderClock sampleOptions ladderEvents))
           = Some 1 \<and>
         map_option maxLatency (result (run acceptAll neverThrows ladderClock sampleOptions ladderEvents))
           = Some 10"
proof -
  have "statsOf r ls" using run_stats [OF assms(1)] assms(2) by simp
  then have general:
    "avgLatency r = (if ls = [] then 0 else of_int (sum_list ls) / of_nat (length ls))"
    "minLatency r = (if ls = [] then 0 else hd (sort ls))"
    "maxLatency r = (if ls = [] then 0 else last (sort ls))"
    by (simp_all add: statsOf_def)
  have samples: "timedBeforeResolution neverThrows ladderClock sampleOptions
             (runHttpBenchmark acceptAll neverThrows ladderClock sampleOptions) ladderEvents
           = [1, 2, 3, 4, 5, 6, 7, 8, 9, 10]"
    by (simp add: engine_defs sampleOptions_def ladderEvents_def acceptAll_def neverThrows_def
        ladderClock_def tableClock_def)
  have ladder:
    "map_option avgLatency (result (run acceptAll neverThrows ladderClock sampleOptions ladderEvents))
           = Some (11 / 2)"
    "map_option minLatency (result (run acceptAll neverThrows ladderClock sampleOptions ladderEvents))
           = Some 1"
    "map_option maxLatency (result (run acceptAll neverThrows ladderClock sampleOptions ladderEvents))
           = Some 10"
    by (simp_all add: ladder_result ladderResult_def)
  show ?thesis using general samples ladder by blast
qed

lemma timeout_samples:
  "timedBeforeResolution neverThrows minuteClock minuteOptions
     (runHttpBenchmark acceptAll neverThrows minuteClock minuteOptions)
     (timeoutEvents @ [End 3 (Some 200)]) = [29900, 100]"
  by (simp add: engine_defs minuteOptions_def timeoutEvents_def acceptAll_def neverThrows_def
      minuteClock_def tableClock_def)

lemma timeout_late_response:
  "run acceptAll neverThrows minuteClock minuteOptions (timeoutEvents @ [End 3 (Some 200)]) =
   \<lparr> latencies = [100, 29900, 150], successCount = 3, failCount = 2, startTime = 0,
     endTime = 60000, activeConnections = - 1, clockReads = 19, inflight = [], issued = 4,
     progressLog = [Num (299 / 6), Num 100, Num 100], promise = Some (Inr timeoutResult) \<rparr>"
  by (simp add: engine_defs minuteOptions_def timeoutEvents_def acceptAll_def neverThrows_def
      minuteClock_def tableClock_def timeoutResult_def)

theorem latency_statistics_witness:
  "result (run acceptAll neverThrows minuteClock minuteOptions (timeoutEvents @ [End 3 (Some 200)]))
     = Some timeoutResult \<and>
   timedBeforeResolution neverThrows minuteClock minuteOptions
     (runHttpBenchmark acceptAll neverThrows minuteClock minuteOptions)
     (timeoutEvents @ [End 3 (Some 200)]) = [29900, 100] \<and>
   failedRequests timeoutResult = 2 \<and>
   avgLatency timeoutResult = of_int (29900 + 100) / 2 \<and>
   minLatency timeoutResult = 100 \<and> maxLatency timeoutResult = 29900"
proof -
  have res: "result (run acceptAll neverThrows minuteClock minuteOptions
      (timeoutEvents @ [End 3 (Some 200)])) = Some timeoutResult"
    by (simp add: timeout_late_response result_def)
  note t = latency_statistics [OF res timeout_samples [symmetric]]
  have "avgLatency timeoutResult = of_int (29900 + 100) / 2"
    "minLatency timeoutResult = 100" "maxLatency timeoutResult = 29900"
    using t by simp_all
  moreover have "failedRequests timeoutResult = 2" by (simp add: timeoutResult_def)
  ultimately show ?thesis using res timeout_samples by simp
qed









section \<open>Failures and the promise\<close>



lemma deliver_failure:
  assumes "delivered s ev"
  shows "failCount (deliver thr clk opts s ev) = failCount s + (if failure ev then 1 else 0)"
    and "successCount (deliver thr clk opts s ev) = successCount s + (if failure ev then 0 else 1)"
  using assms by (cases ev; simp add: deliver_pre makeRequest_fields pre_failCount)+









lemma failure_step:
  "run acceptAll neverThrows stepClock sampleOptions ([] @ [Error 0]) =
   \<lparr> latencies = [], successCount = 0, failCount = 1, startTime = 0, endTime = 1000,
     activeConnections = 1, clockReads = 5,
     inflight = [\<lparr>reqId = 1, reqStart = 400, timeout = 30000, destroyed = False\<rparr>], issued = 2,
     progressLog = [], promise = None \<rparr>"
  by (simp add: engine_defs sampleOptions_def acceptAll_def neverThrows_def stepClock_def)

lemma sample_failures:
  "failuresBeforeResolution neverThrows stepClock sampleOptions
     (runHttpBenchmark acceptAll neverThrows stepClock sampleOptions) sampleEvents = 2"
  by (simp add: engine_defs delivered_def sampleOptions_def sampleEvents_def acceptAll_def
      neverThrows_def stepClock_def)




section \<open>Runs of zero seconds and runs without connections\<close>

text \<open>
  C4, as the code has it. A run of zero seconds with an accepted URL and at least one
  connection is resolved by the start itself, whatever the environment does afterwards:
  the counters, the latency statistics and the percentiles are 0, and
  \<open>requestsPerSecond\<close> is 0 when the measured duration is positive.
\<close>

theorem zero_duration_run:
  assumes mono: "\<forall>n. clk n \<le> clk (Suc n)"
    and valid: "validURL (url opts)"
    and zero: "duration opts = 0"
    and conn: "0 < connections opts"
  shows "\<exists>r. result (run validURL thr clk opts evs) = Some r \<and>
     totalRequests r = 0 \<and> successfulRequests r = 0 \<and> failedRequests r = 0 \<and>
     avgLatency r = 0 \<and> minLatency r = 0 \<and> maxLatency r = 0 \<and>
     p50 r = Some 0 \<and> p95 r = Some 0 \<and> p99 r = Some 0 \<and>
     (0 < duration_res r \<longrightarrow> requestsPerSecond r = Num 0)"
proof -
  let ?i = "initial clk opts"
  have i: "promise ?i = None" "clockReads ?i = 1" "endTime ?i = clk 0"
    "activeConnections ?i = 0" "successCount ?i = 0" "failCount ?i = 0" "latencies ?i = []"
    using zero by (simp_all add: initial_def)
  have "clk 0 \<le> clk 1" using mono by (intro mono_clock) simp_all
  then have late: "endTime ?i \<le> clk (clockReads ?i)" using i by simp
  have "promise (tick ?i) = None" by (simp add: tick_def initial_def)
  then obtain r where "promise (finalize clk opts (tick ?i)) = Some (Inr r)"
    using finalize_resolves by blast
  then have m: "promise (makeRequest thr clk opts ?i) = Some (Inr r)"
    using late i by (simp add: makeRequest_late)
  obtain n where n: "connections opts = Suc n"
    using conn by (cases "connections opts") simp_all
  have nothrow: "\<not> makeRequestThrows thr clk opts ?i"
    using late by (simp add: makeRequestThrows_iff)
  have "promise (startConnections thr clk opts n (makeRequest thr clk opts ?i)) = Some (Inr r)"
    using m by (rule startConnections_settled)
  then have "promise (runHttpBenchmark validURL thr clk opts) = Some (Inr r)"
    using valid n nothrow by (simp add: runHttpBenchmark_def Let_def)
  then have "promise (run validURL thr clk opts evs) = Some (Inr r)"
    unfolding run_def by (rule foldl_deliver_settled)
  then have res: "result (run validURL thr clk opts evs) = Some r" by (simp add: result_def)
  have stats: "totalRequests r = 0" "successfulRequests r = 0" "failedRequests r = 0"
    "requestsPerSecond r = js_div (of_nat (totalRequests r)) (duration_res r)"
    "statsOf r []"
    using makeRequest_resolves [OF i(1) m] i by simp_all
  have lat: "avgLatency r = 0" "minLatency r = 0" "maxLatency r = 0"
    "p50 r = Some 0" "p95 r = Some 0" "p99 r = Some 0"
    using stats(5) by (simp_all add: statsOf_def percentile_def)
  have "0 < duration_res r \<longrightarrow> requestsPerSecond r = Num 0"
    using stats(1,4) by (simp add: js_div_def)
  then show ?thesis using res stats(1-3) lat by blast
qed

lemma zero_duration_sample:
  "run acceptAll neverThrows stepClock zeroDurationOptions sampleEvents =
   \<lparr> latencies = [], successCount = 0, failCount = 0, startTime = 0, endTime = 0,
     activeConnections = 0, clockReads = 4, inflight = [], issued = 0, progressLog = [],
     promise = Some (Inr \<lparr> url_res = ''http://localhost/'', method_res = ''GET'', timestamp = 300,
       duration_res = 1 / 5, totalRequests = 0, successfulRequests = 0, failedRequests = 0,
       requestsPerSecond = Num 0, avgLatency = 0, minLatency = 0, maxLatency = 0,
       p50 = Some 0, p95 = Some 0, p99 = Some 0 \<rparr>) \<rparr>"
  by (simp add: engine_defs zeroDurationOptions_def sampleEvents_def acceptAll_def neverThrows_def
      stepClock_def)

theorem zero_duration_run_witness:
  "(\<forall>n. stepClock n \<le> stepClock (Suc n)) \<and> acceptAll (url zeroDurationOptions) \<and>
   duration zeroDurationOptions = 0 \<and> 0 < connections zeroDurationOptions \<and>
   map_option totalRequests
     (result (run acceptAll neverThrows stepClock zeroDurationOptions sampleEvents)) = Some 0 \<and>
   map_option requestsPerSecond
     (result (run acceptAll neverThrows stepClock zeroDurationOptions sampleEvents)) = Some (Num 0)"
proof -
  have h: "acceptAll (url zeroDurationOptions)" "duration zeroDurationOptions = 0"
    "0 < connections zeroDurationOptions"
    by (simp_all add: acceptAll_def zeroDurationOptions_def)
  obtain r where r: "result (run acceptAll neverThrows stepClock zeroDurationOptions sampleEvents) = Some r"
    "totalRequests r = 0" "0 < duration_res r \<longrightarrow> requestsPerSecond r = Num 0"
    using zero_duration_run [of stepClock acceptAll zeroDurationOptions neverThrows sampleEvents]
      stepClock_mono h by blast
  have "duration_res r = 1 / 5"
    using r(1) by (auto simp: zero_duration_sample result_def)
  then have "requestsPerSecond r = Num 0" using r(3) by simp
  then show ?thesis using stepClock_mono h r(1,2) by simp
qed

text \<open>
  C4, as it is stated, fails: when start and finalization read the same millisecond, a
  run of zero seconds reports \<^verbatim>\<open>0/0 = NaN\<close> requests per second; and a run with no
  connection starts nothing and stays pending, since only \<open>makeRequest\<close> finalizes.
\<close>

theorem zero_duration_counterexample:
  "map_option requestsPerSecond
     (result (run acceptAll neverThrows frozenClock zeroDurationOptions [])) = Some NaN \<and>
   result (run acceptAll neverThrows stepClock noConnectionOptions []) = None \<and>
   inflight (run acceptAll neverThrows stepClock noConnectionOptions []) = []"
  by (simp add: engine_defs result_def zeroDurationOptions_def noConnectionOptions_def
      acceptAll_def neverThrows_def frozenClock_def stepClock_def)

section \<open>The outcome of a request\<close>

text \<open>
  What one delivered callback does to the counters and to the latency array: the end of
  a response records its latency and counts as a success or as a failure by its status;
  an error and a timeout count as a failure and record nothing.
\<close>

lemma outcome_of_callback:
  assumes "delivered s ev"
  shows "successCount (deliver thr clk opts s ev) = successCount s + (if failure ev then 0 else 1)"
    and "failCount (deliver thr clk opts s ev) = failCount s + (if failure ev then 1 else 0)"
    and "mset (latencies (deliver thr clk opts s ev)) = mset (latencies s) + mset (sample clk s ev)"
    and "length (sample clk s ev) = (if untimed ev then 0 else 1)"
proof -
  show "successCount (deliver thr clk opts s ev) = successCount s + (if failure ev then 0 else 1)"
    "failCount (deliver thr clk opts s ev) = failCount s + (if failure ev then 1 else 0)"
    using assms by (simp_all add: deliver_failure)
  show "mset (latencies (deliver thr clk opts s ev)) = mset (latencies s) + mset (sample clk s ev)"
    using assms by (simp add: deliver_pre makeRequest_fields pre_fields)
  show "length (sample clk s ev) = (if untimed ev then 0 else 1)"
    using assms by (rule sample_length)
qed

text \<open>
  C3 on the code: a request that times out is counted as two failures. The handler of
  \<^verbatim>\<open>'timeout'\<close> counts the failure, decrements the counter of active connections, destroys
  the request and issues a request; the destruction makes the request emit \<^verbatim>\<open>'error'\<close>,
  whose handler does all of that again. In the run of one minute, after the timeout of
  request 1 and its error the failure counter is 2 and the single connection has two
  requests in flight, whereas a transport error of request 1 alone is counted once. The
  run then reports two failed requests out of four, although one request failed, two
  were answered and one is in flight.
\<close>

theorem timeout_counted_twice:
  "issued (run acceptAll neverThrows minuteClock minuteOptions [End 0 (Some 200)]) = 2 \<and>
   failCount (run acceptAll neverThrows minuteClock minuteOptions [End 0 (Some 200), Timeout 1]) = 1 \<and>
   delivered (run acceptAll neverThrows minuteClock minuteOptions [End 0 (Some 200), Timeout 1])
     (Error 1) \<and>
   run acceptAll neverThrows minuteClock minuteOptions [End 0 (Some 200), Timeout 1, Error 1] =
     \<lparr> latencies = [29900], successCount = 1, failCount = 2, startTime = 0, endTime = 60000,
       activeConnections = 1, clockReads = 11,
       inflight = [\<lparr>reqId = 2, reqStart = 59900, timeout = 30000, destroyed = False\<rparr>,
                   \<lparr>reqId = 3, reqStart = 59900, timeout = 30000, destroyed = False\<rparr>],
       issued = 4, progressLog = [Num (299 / 6)], promise = None \<rparr> \<and>
   failCount (run acceptAll neverThrows minuteClock minuteOptions [End 0 (Some 200), Error 1]) = 1 \<and>
   issued (run acceptAll neverThrows minuteClock minuteOptions [End 0 (Some 200), Error 1]) = 3 \<and>
   map_option failedRequests
     (result (run acceptAll neverThrows minuteClock minuteOptions timeoutEvents)) = Some 2 \<and>
   map_option totalRequests
     (result (run acceptAll neverThrows minuteClock minuteOptions timeoutEvents)) = Some 4"
proof -
  have a: "issued (run acceptAll neverThrows minuteClock minuteOptions [End 0 (Some 200)]) = 2"
    "failCount (run acceptAll neverThrows minuteClock minuteOptions [End 0 (Some 200), Timeout 1]) = 1"
    "delivered (run acceptAll neverThrows minuteClock minuteOptions [End 0 (Some 200), Timeout 1])
       (Error 1)"
    by (simp_all add: engine_defs delivered_def minuteOptions_def acceptAll_def neverThrows_def
        minuteClock_def tableClock_def)
  have b: "run acceptAll neverThrows minuteClock minuteOptions [End 0 (Some 200), Timeout 1, Error 1] =
     \<lparr> latencies = [29900], successCount = 1, failCount = 2, startTime = 0, endTime = 60000,
       activeConnections = 1, clockReads = 11,
       inflight = [\<lparr>reqId = 2, reqStart = 59900, timeout = 30000, destroyed = False\<rparr>,
                   \<lparr>reqId = 3, reqStart = 59900, timeout = 30000, destroyed = False\<rparr>],
       issued = 4, progressLog = [Num (299 / 6)], promise = None \<rparr>"
    by (simp add: engine_defs minuteOptions_def acceptAll_def neverThrows_def minuteClock_def
        tableClock_def)
  have c: "failCount (run acceptAll neverThrows minuteClock minuteOptions [End 0 (Some 200), Error 1]) = 1"
    "issued (run acceptAll neverThrows minuteClock minuteOptions [End 0 (Some 200), Error 1]) = 3"
    by (simp_all add: engine_defs minuteOptions_def acceptAll_def neverThrows_def minuteClock_def
        tableClock_def)
  have d: "map_option failedRequests
     (result (run acceptAll neverThrows minuteClock minuteOptions timeoutEvents)) = Some 2"
    "map_option totalRequests
     (result (run acceptAll neverThrows minuteClock minuteOptions timeoutEvents)) = Some 4"
    by (simp_all add: timeout_result timeoutResult_def)
  show ?thesis using a b c d by simp
qed

section \<open>Progress reports\<close>

lemma progress_only_after_response:
  "progressLog (deliver thr clk opts s ev) =
     (if delivered s ev \<and> \<not> untimed ev
      then progressLog s @ [progressValue opts (startTime s) (clk (Suc (clockReads s)))]
      else progressLog s)"
proof (cases "delivered s ev")
  case True
  then show ?thesis
    by (cases ev) (simp_all add: deliver_pre makeRequest_fields pre_progress)
qed (simp add: deliver_miss)

text \<open>
  C6 on the code: after a transport error, and after a timeout, of the first request the
  failure is counted and no progress value has been reported; after a response the
  value \<open>min 100 ((400 - 0) / (1 * 1000) * 100) = 40\<close> is reported.
\<close>

theorem progress_skipped_on_failure:
  "failCount (run acceptAll neverThrows stepClock sampleOptions [Error 0]) = 1 \<and>
   progressLog (run acceptAll neverThrows stepClock sampleOptions [Error 0]) = [] \<and>
   failCount (run acceptAll neverThrows stepClock sampleOptions [Timeout 0]) = 1 \<and>
   progressLog (run acceptAll neverThrows stepClock sampleOptions [Timeout 0]) = [] \<and>
   progressLog (run acceptAll neverThrows stepClock sampleOptions [End 0 (Some 200)]) = [Num 40]"
  by (simp add: engine_defs sampleOptions_def acceptAll_def neverThrows_def stepClock_def)

end
